theory Spec2Isabelle
  imports
    Complex_Main
    "HOL-Library.Word"
    "HOL-Library.FSet"
    "HOL-Library.AList"
    "HOL-Library.Char_ord"
    "HOL-Library.List_Lexorder"
    "HOL-Library.Product_Lexorder"
    "HOL-Library.Multiset"
    "HOL-Library.Sublist"
begin

unbundle bit_operations_syntax

section \<open>Data model\<close>

text \<open>
  The type declarations of \<^verbatim>\<open>$lib/types\<close> are not part of \<^verbatim>\<open>src/lib/api.ts\<close>; the
  records below carry the fields that the code of \<^verbatim>\<open>api.ts\<close> and of the year page
  reads (\<^verbatim>\<open>title\<close>, \<^verbatim>\<open>series.name\<close>, \<^verbatim>\<open>id\<close>, \<^verbatim>\<open>code\<close>, \<^verbatim>\<open>data.total\<close>) and the ones
  the specification lists for a record. A date is a calendar date whose month is
  counted from 0, as the \<^verbatim>\<open>month()\<close> of the date library does. JavaScript numbers
  that hold years, page indices, totals and status codes are modelled as \<open>int\<close>.
\<close>

record Date =
  year :: int
  month :: int
  day :: int

record Series =
  name :: string

record Comic =
  comic_id :: string
  title :: string
  series :: Series
  creators :: "string list"
  events :: "string list"
  onSaleDate :: Date
  unlimitedDate :: Date

record RandomComic =
  random_id :: string
  random_title :: string

record ComicDataContainer =
  total_count :: int
  results :: "Comic list"

record ComicDataWrapper =
  code :: int
  data :: ComicDataContainer

section \<open>Number formatting\<close>

text \<open>
  \<^verbatim>\<open>Number.prototype.toString\<close> on an integer: the decimal digits, with a leading
  minus sign for a negative number.
\<close>

function digits :: "nat \<Rightarrow> string" where
  "digits n =
     (if n < 10 then [''0123456789'' ! n]
      else digits (n div 10) @ [''0123456789'' ! (n mod 10)])"
  by pat_completeness auto
termination
  by (relation "measure (\<lambda>n. n)") auto

declare digits.simps [simp del]

definition toString :: "int \<Rightarrow> string" where
  "toString i = (if i < 0 then CHR ''-'' # digits (nat (- i)) else digits (nat i))"

section \<open>The upstream API\<close>

text \<open>
  The two keys come from the process environment and may be undefined; string
  concatenation and \<^verbatim>\<open>URLSearchParams\<close> turn an undefined value into the text
  \<^verbatim>\<open>undefined\<close>. The digest function of \<^verbatim>\<open>crypto-js\<close> is a parameter that returns a
  128-bit word; its \<^verbatim>\<open>toString()\<close> prints the word as 32 lower-case hexadecimal
  digits.
\<close>

record env =
  PUBLIC_KEY :: "string option"
  PRIVATE_KEY :: "string option"
  md5 :: "string \<Rightarrow> 128 word"

definition String_of :: "string option \<Rightarrow> string" where
  "String_of v = (case v of None \<Rightarrow> ''undefined'' | Some s \<Rightarrow> s)"

definition hex :: "128 word \<Rightarrow> string" where
  "hex w = map (\<lambda>i. ''0123456789abcdef'' ! unat (take_bit 4 (drop_bit (4 * i) w))) (rev [0..<32])"

definition COMICS_ENDPOINT :: string where
  "COMICS_ENDPOINT = ''https://gateway.marvel.com/v1/public/comics''"

definition MAX_LIMIT :: int where
  "MAX_LIMIT = 100"

text \<open>
  A request is the endpoint and the query parameters in the insertion order of the
  object they are taken from. The object spread followed by three more properties
  is \<open>AList.update\<close>: an existing key keeps its place and takes the new value, a new
  key goes to the end.
\<close>

record Request =
  url :: string
  search :: "(string \<times> string) list"

definition getComicsSearchParams :: "int \<Rightarrow> int \<Rightarrow> int \<Rightarrow> (string \<times> string) list" where
  "getComicsSearchParams yr offset limit =
     [(''formatType'', ''comic''),
      (''noVariants'', ''true''),
      (''dateRange'', toString yr @ ''-01-01,'' @ toString yr @ ''-12-31''),
      (''hasDigitalIssue'', ''true''),
      (''limit'', toString limit),
      (''offset'', toString offset),
      (''orderBy'', ''modified'')]"

datatype UpstreamError = NetworkFailure | DecodeFailure

text \<open>
  \<^verbatim>\<open>callMarvelApi\<close> reads the clock, signs the parameters and fetches. The model
  takes the clock value \<open>now\<close> and appends the request to the log of requests sent;
  what the upstream service answers is an argument of the callers below.
\<close>

definition signedRequest :: "env \<Rightarrow> int \<Rightarrow> string \<Rightarrow> (string \<times> string) list \<Rightarrow> Request" where
  "signedRequest E now urlString params =
     (let ts = toString now;
          paramsWithKey =
            AList.update ''ts'' ts
              (AList.update ''hash'' (hex (md5 E (ts @ String_of (PRIVATE_KEY E) @ String_of (PUBLIC_KEY E))))
                (AList.update ''apikey'' (String_of (PUBLIC_KEY E)) params))
      in \<lparr>url = urlString, search = paramsWithKey\<rparr>)"

definition callMarvelApi ::
  "env \<Rightarrow> int \<Rightarrow> string \<Rightarrow> (string \<times> string) list \<Rightarrow> Request list \<Rightarrow> Request list" where
  "callMarvelApi E now urlString params sent = sent @ [signedRequest E now urlString params]"

section \<open>The store\<close>

text \<open>
  Modelled from the spec: the class \<^verbatim>\<open>RedisClient\<close> of \<^verbatim>\<open>$lib/redis\<close> is not under
  \<^verbatim>\<open>src/\<close>. Section 6 of the specification gives its contract: \<^verbatim>\<open>get\<close> returns the
  typed value of a key or nothing, \<^verbatim>\<open>set\<close> stores a value under a key, \<^verbatim>\<open>addComics\<close>
  stores a page under (year, page index) together with the set of ids that have
  images, and the two samplers return sequences of records. The samplers are fields
  of the store, so that any sampler can be supplied.
\<close>

record RedisClient =
  kv :: "string \<rightharpoonup> int"
  pages :: "int \<times> int \<rightharpoonup> ComicDataWrapper \<times> string fset"
  getRandomComicsForYear :: "int \<Rightarrow> int \<Rightarrow> int \<Rightarrow> RandomComic list"
  getRandomComics_any :: "RandomComic list"

definition get :: "RedisClient \<Rightarrow> string \<Rightarrow> int option" where
  "get r key = kv r key"

definition set_key :: "RedisClient \<Rightarrow> string \<Rightarrow> int \<Rightarrow> RedisClient" where
  "set_key r key v = r\<lparr>kv := (kv r)(key \<mapsto> v)\<rparr>"

definition addComics ::
  "RedisClient \<Rightarrow> int \<Rightarrow> int \<Rightarrow> ComicDataWrapper \<Rightarrow> string fset \<Rightarrow> RedisClient" where
  "addComics r yr page w ids = r\<lparr>pages := (pages r)((yr, page) \<mapsto> (w, ids))\<rparr>"

section \<open>MarvelApi\<close>

text \<open>
  An operation takes the store, the log of requests sent so far and, where it may
  call the upstream service, the answer the service gives to that call: a transport
  or decoding failure, or the parsed envelope. It returns its result, the store and
  the log. A failure of \<^verbatim>\<open>fetch\<close> or of \<^verbatim>\<open>json()\<close> propagates to the caller.
\<close>

record MarvelApi =
  redis :: RedisClient
  ignoreCache :: bool

type_synonym 'a outcome = "(UpstreamError + 'a) \<times> MarvelApi \<times> Request list"

definition getComics ::
  "env \<Rightarrow> int \<Rightarrow> (UpstreamError + ComicDataWrapper) \<Rightarrow> MarvelApi \<Rightarrow> Request list \<Rightarrow>
   int \<Rightarrow> int \<Rightarrow> (int \<rightharpoonup> ComicDataWrapper) \<Rightarrow> string fset \<Rightarrow> ComicDataWrapper outcome" where
  "getComics E now answer this sent yr page cache comicIdsWithImages =
     (case cache page of
        Some cached \<Rightarrow> (Inr cached, this, sent)
      | None \<Rightarrow>
          (let sent' = callMarvelApi E now COMICS_ENDPOINT
                         (getComicsSearchParams yr (page * MAX_LIMIT) MAX_LIMIT) sent
           in case answer of
                Inl e \<Rightarrow> (Inl e, this, sent')
              | Inr parsedResult \<Rightarrow>
                  (if code parsedResult = 200
                   then (Inr parsedResult,
                         this\<lparr>redis := addComics (redis this) yr page parsedResult comicIdsWithImages\<rparr>,
                         sent')
                   else (Inr parsedResult, this, sent'))))"

definition total_key :: "int \<Rightarrow> string" where
  "total_key yr = ''year:'' @ toString yr @ '':total''"

text \<open>
  The guard \<^verbatim>\<open>val && !this.ignoreCache\<close> tests the cached number for truthiness: an
  absent value and the number 0 are both falsy.
\<close>

definition getTotalComics ::
  "env \<Rightarrow> int \<Rightarrow> (UpstreamError + ComicDataWrapper) \<Rightarrow> MarvelApi \<Rightarrow> Request list \<Rightarrow>
   int \<Rightarrow> int outcome" where
  "getTotalComics E now answer this sent yr =
     (let key = total_key yr;
          val = get (redis this) key;
          fetched =
            (let sent' = callMarvelApi E now COMICS_ENDPOINT (getComicsSearchParams yr 0 1) sent
             in case answer of
                  Inl e \<Rightarrow> (Inl e, this, sent')
                | Inr parsedResult \<Rightarrow>
                    (if code parsedResult = 200
                     then (let total = total_count (data parsedResult)
                           in (Inr total, this\<lparr>redis := set_key (redis this) key total\<rparr>, sent'))
                     else (Inr (- 1), this, sent')))
      in case val of
           Some v \<Rightarrow> if v \<noteq> 0 \<and> \<not> ignoreCache this then (Inr v, this, sent) else fetched
         | None \<Rightarrow> fetched)"

text \<open>
  Modelled from the spec: \<^verbatim>\<open>dedupe\<close> of \<^verbatim>\<open>$lib/util\<close> is not under \<^verbatim>\<open>src/\<close>. The
  specification says that the sample is deduplicated by id, preserving first
  occurrence (insertion order): the first record of each key is kept where it
  stands and the later records of that key are dropped.
\<close>

fun dedupe :: "'a list \<Rightarrow> ('a \<Rightarrow> 'k) \<Rightarrow> 'a list" where
  "dedupe [] keyFn = []"
| "dedupe (x # xs) keyFn = x # dedupe (filter (\<lambda>y. keyFn y \<noteq> keyFn x) xs) keyFn"

text \<open>
  The optional bounds are absent (\<open>None\<close>) or numbers; the guard
  \<^verbatim>\<open>startYear && endYear\<close> holds when both are present and neither is 0. The seed is
  the clock value.
\<close>

definition getRandomComics :: "int \<Rightarrow> MarvelApi \<Rightarrow> int option \<Rightarrow> int option \<Rightarrow> RandomComic list" where
  "getRandomComics now this startYear endYear =
     (case (startYear, endYear) of
        (Some s, Some e) \<Rightarrow>
          if s \<noteq> 0 \<and> e \<noteq> 0
          then (let seed = now;
                    result = getRandomComicsForYear (redis this) s e seed
                in dedupe result random_id)
          else getRandomComics_any (redis this)
      | _ \<Rightarrow> getRandomComics_any (redis this))"

section \<open>The year page: filter, search, sort, direction\<close>

text \<open>
  The helpers imported from \<^verbatim>\<open>$lib/comics\<close> and the ranking function of the
  \<^verbatim>\<open>match-sorter\<close> package are not in the source file; the functions of the page take
  them as one parameter. A comparator returns a number whose sign orders its
  arguments; a rank is a number, 0 for no match.
\<close>

record helpers =
  getOnSaleDate :: "Comic \<Rightarrow> Date"
  isCreatorSelected :: "Comic \<Rightarrow> string fset \<Rightarrow> bool"
  isEventSelected :: "Comic \<Rightarrow> string fset \<Rightarrow> bool"
  compareDates :: "Comic \<Rightarrow> Comic \<Rightarrow> int"
  compareTitles :: "Comic \<Rightarrow> Comic \<Rightarrow> int"
  compareUnlimitedDates :: "Comic \<Rightarrow> Comic \<Rightarrow> int"
  getMatchRanking :: "string \<Rightarrow> string \<Rightarrow> real"





text \<open>
  The three stores \<^verbatim>\<open>$series\<close>, \<^verbatim>\<open>$creators\<close> and \<^verbatim>\<open>$events\<close> hold every value
  available in the current records; \<^verbatim>\<open>filterComics\<close> reads their sizes.
\<close>

record universe =
  all_series :: "string fset"
  all_creators :: "string fset"
  all_events :: "string fset"

definition filterComics ::
  "helpers \<Rightarrow> universe \<Rightarrow> Comic list \<Rightarrow> string fset \<Rightarrow> string fset \<Rightarrow> string fset \<Rightarrow> int \<Rightarrow>
   Comic list" where
  "filterComics L U comics selectedSeries selectedCreators selectedEvents monthIndex =
     (let noCreatorsSelected = (fcard selectedCreators = fcard (all_creators U));
          noEventsSelected = (fcard selectedEvents = fcard (all_events U));
          noSeriesSelected = (fcard selectedSeries = fcard (all_series U))
      in filter
           (\<lambda>c. (monthIndex < 0 \<or> month (getOnSaleDate L c) = monthIndex) \<and>
                (noSeriesSelected \<or> name (series c) |\<in>| selectedSeries) \<and>
                (noCreatorsSelected \<or> isCreatorSelected L c selectedCreators) \<and>
                (noEventsSelected \<or> isEventSelected L c selectedEvents))
           comics)"














section \<open>Concrete inputs\<close>

text \<open>
  Modelled from the spec: the helpers of \<^verbatim>\<open>$lib/comics\<close> are not under \<^verbatim>\<open>src/\<close>. For
  concrete runs, \<open>sample_helpers\<close> follows the specification: the publish month is
  the month of the publish date, a record matches a creator (event) selection if it
  has at least one creator (event) in the selected set, titles compare
  case-sensitively and lexicographically, dates compare chronologically. Its
  ranking is a small stand-in for the package's one: 7 for an equal title, 5 for a
  title that starts with the search text, 0 otherwise.
\<close>

definition before :: "Date \<Rightarrow> Date \<Rightarrow> bool" where
  "before a b \<longleftrightarrow> (year a, month a, day a) < (year b, month b, day b)"

definition sample_helpers :: helpers where
  "sample_helpers =
     \<lparr>getOnSaleDate = onSaleDate,
      isCreatorSelected = (\<lambda>c selected. \<exists>x \<in> set (creators c). x |\<in>| selected),
      isEventSelected = (\<lambda>c selected. \<exists>x \<in> set (events c). x |\<in>| selected),
      compareDates = (\<lambda>a b. if before (onSaleDate a) (onSaleDate b) then - 1
                              else if before (onSaleDate b) (onSaleDate a) then 1 else 0),
      compareTitles = (\<lambda>a b. if title a < title b then - 1
                               else if title b < title a then 1 else 0),
      compareUnlimitedDates = (\<lambda>a b. if before (unlimitedDate a) (unlimitedDate b) then - 1
                                       else if before (unlimitedDate b) (unlimitedDate a) then 1 else 0),
      getMatchRanking = (\<lambda>t v. if t = v then 7 else if take (length v) t = v then 5 else 0)\<rparr>"

definition comic1 :: Comic where
  "comic1 = \<lparr>comic_id = ''1'', title = ''Amazing Spider-Man'', series = \<lparr>name = ''ASM''\<rparr>,
             creators = [''Lee''], events = [],
             onSaleDate = \<lparr>year = 1963, month = 2, day = 1\<rparr>,
             unlimitedDate = \<lparr>year = 2007, month = 10, day = 13\<rparr>\<rparr>"

definition comic2 :: Comic where
  "comic2 = \<lparr>comic_id = ''2'', title = ''Astonishing Spider-Man'', series = \<lparr>name = ''ASM''\<rparr>,
             creators = [''Lee''], events = [],
             onSaleDate = \<lparr>year = 1962, month = 7, day = 10\<rparr>,
             unlimitedDate = \<lparr>year = 2008, month = 0, day = 2\<rparr>\<rparr>"

definition comic3 :: Comic where
  "comic3 = \<lparr>comic_id = ''3'', title = ''Amazing Spider-Man Annual'',
             series = \<lparr>name = ''ASM Annual''\<rparr>,
             creators = [''Kirby''], events = [],
             onSaleDate = \<lparr>year = 1961, month = 5, day = 20\<rparr>,
             unlimitedDate = \<lparr>year = 2009, month = 3, day = 7\<rparr>\<rparr>"


definition wide_universe :: universe where
  "wide_universe = \<lparr>all_series = {|''ASM'', ''ASM Annual''|},
                    all_creators = {|''Lee'', ''Kirby''|}, all_events = {||}\<rparr>"

definition page_ok :: ComicDataWrapper where
  "page_ok = \<lparr>code = 200, data = \<lparr>total_count = 2, results = [comic1, comic2]\<rparr>\<rparr>"

definition page_failed :: ComicDataWrapper where
  "page_failed = \<lparr>code = 409, data = \<lparr>total_count = 0, results = []\<rparr>\<rparr>"

definition random1 :: RandomComic where
  "random1 = \<lparr>random_id = ''1'', random_title = ''Amazing Spider-Man''\<rparr>"

definition random2 :: RandomComic where
  "random2 = \<lparr>random_id = ''2'', random_title = ''Astonishing Spider-Man''\<rparr>"

text \<open>
  A store with nothing cached whose samplers return a record twice, and an
  environment whose digest function is a stand-in (the length of the text).
\<close>

definition sample_store :: RedisClient where
  "sample_store =
     \<lparr>kv = Map.empty, pages = Map.empty,
      getRandomComicsForYear = (\<lambda>s e seed. [random1, random2, random1]),
      getRandomComics_any = [random1, random1]\<rparr>"

definition sample_api :: MarvelApi where
  "sample_api = \<lparr>redis = sample_store, ignoreCache = False\<rparr>"

definition sample_env :: env where
  "sample_env = \<lparr>PUBLIC_KEY = Some ''pub'', PRIVATE_KEY = Some ''priv'',
                 md5 = (\<lambda>s. of_nat (length s))\<rparr>"

section \<open>Auxiliary facts\<close>

lemma toString_100: "toString 100 = ''100''"
  by (simp add: toString_def digits.simps)

lemma toString_2020: "toString 2020 = ''2020''"
  by (simp add: toString_def digits.simps)

lemma length_hex: "length (hex w) = 32"
  by (simp add: hex_def)

lemma set_dedupe: "set (dedupe xs f) \<subseteq> set xs"
  by (induction xs f rule: dedupe.induct) auto

lemma keys_dedupe: "f ` set (dedupe xs f) = f ` set xs"
  by (induction xs f rule: dedupe.induct) (auto simp: image_iff)

lemma distinct_dedupe: "distinct (map f (dedupe xs f))"
proof (induction xs f rule: dedupe.induct)
  case (1 f)
  show ?case by simp
next
  case (2 x xs f)
  have "f x \<notin> f ` set (dedupe (filter (\<lambda>y. f y \<noteq> f x) xs) f)"
    using set_dedupe[of "filter (\<lambda>y. f y \<noteq> f x) xs" f] by auto
  with 2 show ?case by simp
qed

lemma find_filter_other:
  "f x \<noteq> f z \<Longrightarrow>
   find (\<lambda>y. f y = f x) (filter (\<lambda>y. f y \<noteq> f z) xs) = find (\<lambda>y. f y = f x) xs"
  by (induction xs) auto

lemma find_dedupe: "x \<in> set (dedupe xs f) \<Longrightarrow> find (\<lambda>y. f y = f x) xs = Some x"
proof (induction xs f rule: dedupe.induct)
  case (1 f)
  then show ?case by simp
next
  case (2 z xs f)
  show ?case
  proof (cases "x = z")
    case True
    then show ?thesis by simp
  next
    case False
    with 2 have m: "x \<in> set (dedupe (filter (\<lambda>y. f y \<noteq> f z) xs) f)" by simp
    then have "x \<in> set (filter (\<lambda>y. f y \<noteq> f z) xs)" using set_dedupe by fastforce
    then have ne: "f x \<noteq> f z" by simp
    from 2 m have "find (\<lambda>y. f y = f x) (filter (\<lambda>y. f y \<noteq> f z) xs) = Some x" by simp
    then show ?thesis using ne by (simp add: find_filter_other)
  qed
qed

lemma subseq_dedupe: "subseq (dedupe xs f) xs"
proof (induction xs f rule: dedupe.induct)
  case (1 f)
  show ?case by simp
next
  case (2 x xs f)
  have "subseq (filter (\<lambda>y. f y \<noteq> f x) xs) xs" by simp
  with 2 have "subseq (dedupe (filter (\<lambda>y. f y \<noteq> f x) xs) f) xs"
    using subseq_order.order_trans by blast
  then show ?case by simp
qed
































lemma getTotalComics_fetches:
  assumes "ignoreCache this \<or> get (redis this) (total_key yr) = None \<or>
      get (redis this) (total_key yr) = Some 0"
  shows "getTotalComics E now answer this sent yr =
     (case answer of
        Inl e \<Rightarrow> (Inl e, this, sent @ [signedRequest E now COMICS_ENDPOINT (getComicsSearchParams yr 0 1)])
      | Inr p \<Rightarrow>
          if code p = 200
          then (Inr (total_count (data p)),
                this\<lparr>redis := set_key (redis this) (total_key yr) (total_count (data p))\<rparr>,
                sent @ [signedRequest E now COMICS_ENDPOINT (getComicsSearchParams yr 0 1)])
          else (Inr (- 1), this,
                sent @ [signedRequest E now COMICS_ENDPOINT (getComicsSearchParams yr 0 1)]))"
  using assms
  by (auto simp add: getTotalComics_def Let_def callMarvelApi_def split: option.splits sum.splits)

lemma getTotalComics_served:
  assumes "get (redis this) (total_key yr) = Some v" "v \<noteq> 0" "\<not> ignoreCache this"
  shows "getTotalComics E now answer this sent yr = (Inr v, this, sent)"
  using assms by (simp add: getTotalComics_def Let_def)

lemma getTotalComics_cases:
  "(ignoreCache this \<or> get (redis this) (total_key yr) = None \<or>
      get (redis this) (total_key yr) = Some 0) \<or>
   (\<exists>v. get (redis this) (total_key yr) = Some v \<and> v \<noteq> 0 \<and> \<not> ignoreCache this)"
  by (cases "get (redis this) (total_key yr)") auto

lemma get_set_key: "get (set_key r key v) k = (if k = key then Some v else get r k)"
  by (simp add: get_def set_key_def)

section \<open>The cache-through fetch layer\<close>

text \<open>
  C5. If the page index is present in the caller-supplied \<open>cache\<close>, \<open>getComics\<close>
  returns that page at once: the log of upstream requests and the store are
  unchanged. A second call with the same \<open>cache\<close>, whatever the clock and the
  upstream would answer, returns the same page, again with no request and no write.
\<close>

theorem getComics_cached_page:
  assumes "cache page = Some cached"
  shows "getComics E now answer this sent yr page cache ids = (Inr cached, this, sent) \<and>
         getComics E now' answer'
           (fst (snd (getComics E now answer this sent yr page cache ids)))
           (snd (snd (getComics E now answer this sent yr page cache ids)))
           yr page cache ids = (Inr cached, this, sent)"
  using assms by (simp add: getComics_def)

theorem getComics_cached_page_witness:
  "[0 \<mapsto> page_ok] (0::int) = Some page_ok \<and>
   getComics sample_env 5 (Inr page_failed) sample_api [] 2020 0 [0 \<mapsto> page_ok] {||} =
     (Inr page_ok, sample_api, []) \<and>
   getComics sample_env 6 (Inl NetworkFailure) sample_api [] 2020 0 [0 \<mapsto> page_ok] {||} =
     (Inr page_ok, sample_api, [])"
  using getComics_cached_page [where cache = "[0 \<mapsto> page_ok]" and page = 0
      and cached = page_ok and E = sample_env and now = 5 and answer = "Inr page_failed"
      and this = sample_api and sent = "[]" and yr = 2020 and ids = "{||}" and now' = 6
      and answer' = "Inl NetworkFailure"]
  by auto

text \<open>
  C4. On a cache miss, \<open>getComics\<close> writes the fetched page to the store if and
  only if the parsed response has code 200, and returns the parsed page whatever
  its code; a fetch that fails is never written.
\<close>

theorem getComics_persists_iff_success:
  assumes "cache page = None"
  shows "(\<forall>parsed. answer = Inr parsed \<longrightarrow>
            fst (getComics E now answer this sent yr page cache ids) = Inr parsed \<and>
            fst (snd (getComics E now answer this sent yr page cache ids)) =
              (if code parsed = 200
               then this\<lparr>redis := addComics (redis this) yr page parsed ids\<rparr>
               else this)) \<and>
         (\<forall>e. answer = Inl e \<longrightarrow>
            fst (getComics E now answer this sent yr page cache ids) = Inl e \<and>
            fst (snd (getComics E now answer this sent yr page cache ids)) = this)"
  using assms by (simp add: getComics_def Let_def)

theorem getComics_persists_iff_success_witness:
  "Map.empty (0::int) = (None :: ComicDataWrapper option) \<and>
   fst (getComics sample_env 5 (Inr page_ok) sample_api [] 2020 0 Map.empty {||}) = Inr page_ok \<and>
   pages (redis (fst (snd (getComics sample_env 5 (Inr page_ok) sample_api [] 2020 0 Map.empty {||}))))
     (2020, 0) = Some (page_ok, {||}) \<and>
   fst (getComics sample_env 5 (Inr page_failed) sample_api [] 2020 0 Map.empty {||}) = Inr page_failed \<and>
   fst (snd (getComics sample_env 5 (Inr page_failed) sample_api [] 2020 0 Map.empty {||})) = sample_api"
  using getComics_persists_iff_success [where cache = Map.empty and page = 0
      and answer = "Inr page_ok" and E = sample_env and now = 5 and this = sample_api
      and sent = "[]" and yr = 2020 and ids = "{||}"]
    getComics_persists_iff_success [where cache = Map.empty and page = 0
      and answer = "Inr page_failed" and E = sample_env and now = 5 and this = sample_api
      and sent = "[]" and yr = 2020 and ids = "{||}"]
  by (simp add: page_ok_def page_failed_def addComics_def)

text \<open>
  C8. On a cache miss, \<open>getComics\<close> for year \<open>yr\<close> and page index \<open>page\<close> sends one
  request to the comics endpoint, and its query parameters are exactly
  formatType=comic, noVariants=true, dateRange=yr-01-01,yr-12-31,
  hasDigitalIssue=true, limit=100, offset=page*100, orderBy=modified, followed by
  apikey (the public key), hash and ts, where ts is the clock value and hash is the
  128-bit digest of ts, private key and public key, printed as 32 hexadecimal
  digits. On a cache hit no request is sent.
\<close>

theorem getComics_request_parameters:
  "snd (snd (getComics E now answer this sent yr page cache ids)) =
     (if cache page = None
      then sent @
        [\<lparr>url = ''https://gateway.marvel.com/v1/public/comics'',
          search =
            [(''formatType'', ''comic''),
             (''noVariants'', ''true''),
             (''dateRange'', toString yr @ ''-01-01,'' @ toString yr @ ''-12-31''),
             (''hasDigitalIssue'', ''true''),
             (''limit'', ''100''),
             (''offset'', toString (page * 100)),
             (''orderBy'', ''modified''),
             (''apikey'', String_of (PUBLIC_KEY E)),
             (''hash'', hex (md5 E (toString now @ String_of (PRIVATE_KEY E) @
                                   String_of (PUBLIC_KEY E)))),
             (''ts'', toString now)]\<rparr>]
      else sent) \<and>
   length (hex (md5 E (toString now @ String_of (PRIVATE_KEY E) @ String_of (PUBLIC_KEY E)))) = 32"
  by (simp add: getComics_def Let_def callMarvelApi_def signedRequest_def
      getComicsSearchParams_def COMICS_ENDPOINT_def MAX_LIMIT_def toString_100 length_hex
      split: sum.splits option.splits)

theorem getComics_request_parameters_witness:
  "snd (snd (getComics sample_env 5 (Inr page_ok) sample_api [] 2020 3 Map.empty {||})) =
     [\<lparr>url = ''https://gateway.marvel.com/v1/public/comics'',
       search =
         [(''formatType'', ''comic''),
          (''noVariants'', ''true''),
          (''dateRange'', ''2020-01-01,2020-12-31''),
          (''hasDigitalIssue'', ''true''),
          (''limit'', ''100''),
          (''offset'', ''300''),
          (''orderBy'', ''modified''),
          (''apikey'', ''pub''),
          (''hash'', ''00000000000000000000000000000008''),
          (''ts'', ''5'')]\<rparr>]"
  using getComics_request_parameters [where E = sample_env and now = 5
      and answer = "Inr page_ok" and this = sample_api and sent = "[]" and yr = 2020
      and page = 3 and cache = Map.empty and ids = "{||}"]
  by (simp add: toString_def digits.simps sample_env_def String_of_def hex_def
      upt_conv_Cons drop_bit_eq_div take_bit_eq_mod)

text \<open>
  C3. When the cache does not answer (the cache is bypassed, or no total is cached
  for the year, or the cached total is 0), \<open>getTotalComics\<close> on a parsed response
  whose code is not 200 returns -1 and leaves the store as it was, so that a later
  call sends an upstream request again; on code 200 it stores the total under the
  year's key and returns it. The value -1 does not enter the store: a key holds -1
  after a call only if it held -1 before, unless the upstream itself reports -1 as
  the total of a successful response.
\<close>

theorem getTotalComics_failure_not_cached:
  "(ignoreCache this \<or> get (redis this) (total_key yr) = None \<or>
      get (redis this) (total_key yr) = Some 0 \<longrightarrow>
    code parsed \<noteq> 200 \<longrightarrow>
      getTotalComics E now (Inr parsed) this sent yr =
        (Inr (- 1), this,
         sent @ [signedRequest E now COMICS_ENDPOINT (getComicsSearchParams yr 0 1)]) \<and>
      snd (snd (getTotalComics E now' answer'
                  (fst (snd (getTotalComics E now (Inr parsed) this sent yr)))
                  (snd (snd (getTotalComics E now (Inr parsed) this sent yr))) yr)) =
        sent @ [signedRequest E now COMICS_ENDPOINT (getComicsSearchParams yr 0 1),
                signedRequest E now' COMICS_ENDPOINT (getComicsSearchParams yr 0 1)]) \<and>
   (ignoreCache this \<or> get (redis this) (total_key yr) = None \<or>
      get (redis this) (total_key yr) = Some 0 \<longrightarrow>
    code parsed = 200 \<longrightarrow>
      getTotalComics E now (Inr parsed) this sent yr =
        (Inr (total_count (data parsed)),
         this\<lparr>redis := set_key (redis this) (total_key yr) (total_count (data parsed))\<rparr>,
         sent @ [signedRequest E now COMICS_ENDPOINT (getComicsSearchParams yr 0 1)]) \<and>
      get (redis (fst (snd (getTotalComics E now (Inr parsed) this sent yr)))) (total_key yr) =
        Some (total_count (data parsed))) \<and>
   ((\<forall>p. answer = Inr p \<and> code p = 200 \<longrightarrow> total_count (data p) \<noteq> - 1) \<longrightarrow>
    get (redis (fst (snd (getTotalComics E now answer this sent yr)))) k = Some (- 1) \<longrightarrow>
    get (redis this) k = Some (- 1))"
proof (intro conjI impI)
  assume miss: "ignoreCache this \<or> get (redis this) (total_key yr) = None \<or>
      get (redis this) (total_key yr) = Some 0"
  {
    assume "code parsed \<noteq> 200"
    then show "getTotalComics E now (Inr parsed) this sent yr =
        (Inr (- 1), this,
         sent @ [signedRequest E now COMICS_ENDPOINT (getComicsSearchParams yr 0 1)])"
      by (simp add: getTotalComics_fetches [OF miss])
    then show "snd (snd (getTotalComics E now' answer'
                  (fst (snd (getTotalComics E now (Inr parsed) this sent yr)))
                  (snd (snd (getTotalComics E now (Inr parsed) this sent yr))) yr)) =
        sent @ [signedRequest E now COMICS_ENDPOINT (getComicsSearchParams yr 0 1),
                signedRequest E now' COMICS_ENDPOINT (getComicsSearchParams yr 0 1)]"
      by (cases answer') (simp_all add: getTotalComics_fetches [OF miss])
  }
  {
    assume "code parsed = 200"
    then show "getTotalComics E now (Inr parsed) this sent yr =
        (Inr (total_count (data parsed)),
         this\<lparr>redis := set_key (redis this) (total_key yr) (total_count (data parsed))\<rparr>,
         sent @ [signedRequest E now COMICS_ENDPOINT (getComicsSearchParams yr 0 1)])"
      by (simp add: getTotalComics_fetches [OF miss])
    then show "get (redis (fst (snd (getTotalComics E now (Inr parsed) this sent yr))))
        (total_key yr) = Some (total_count (data parsed))"
      by (simp add: get_set_key)
  }
next
  assume counts: "\<forall>p. answer = Inr p \<and> code p = 200 \<longrightarrow> total_count (data p) \<noteq> - 1"
    and now_held: "get (redis (fst (snd (getTotalComics E now answer this sent yr)))) k = Some (- 1)"
  show "get (redis this) k = Some (- 1)"
    using getTotalComics_cases [of this yr]
  proof (elim disjE exE conjE)
    fix v
    assume "get (redis this) (total_key yr) = Some v" "v \<noteq> 0" "\<not> ignoreCache this"
    then show ?thesis using now_held by (simp add: getTotalComics_served)
  qed (use counts now_held in
        \<open>cases answer; simp add: getTotalComics_fetches get_set_key split: if_splits\<close>)+
qed

theorem getTotalComics_failure_not_cached_witness:
  "get (redis sample_api) (total_key 2020) = None \<and>
   code page_failed \<noteq> 200 \<and> code page_ok = 200 \<and>
   getTotalComics sample_env 5 (Inr page_failed) sample_api [] 2020 =
     (Inr (- 1), sample_api,
      [signedRequest sample_env 5 COMICS_ENDPOINT (getComicsSearchParams 2020 0 1)]) \<and>
   snd (snd (getTotalComics sample_env 6 (Inr page_failed) sample_api
      [signedRequest sample_env 5 COMICS_ENDPOINT (getComicsSearchParams 2020 0 1)] 2020)) =
     [signedRequest sample_env 5 COMICS_ENDPOINT (getComicsSearchParams 2020 0 1),
      signedRequest sample_env 6 COMICS_ENDPOINT (getComicsSearchParams 2020 0 1)] \<and>
   fst (getTotalComics sample_env 5 (Inr page_ok) sample_api [] 2020) = Inr 2 \<and>
   get (redis (fst (snd (getTotalComics sample_env 5 (Inr page_ok) sample_api [] 2020))))
     ''year:2020:total'' = Some 2 \<and>
   get (redis (fst (snd (getTotalComics sample_env 5 (Inr page_ok) sample_api [] 2020))))
     ''year:2020:total'' \<noteq> Some (- 1)"
proof -
  have miss: "get (redis sample_api) (total_key 2020) = None"
    by (simp add: sample_api_def sample_store_def get_def)
  have failed: "code page_failed \<noteq> 200" and ok: "code page_ok = 200"
    by (simp_all add: page_failed_def page_ok_def)
  have key: "total_key 2020 = ''year:2020:total''"
    by (simp add: total_key_def toString_2020)
  have total: "total_count (data page_ok) = 2"
    by (simp add: page_ok_def)
  have failure:
    "getTotalComics sample_env 5 (Inr page_failed) sample_api [] 2020 =
       (Inr (- 1), sample_api,
        [] @ [signedRequest sample_env 5 COMICS_ENDPOINT (getComicsSearchParams 2020 0 1)]) \<and>
     snd (snd (getTotalComics sample_env 6 (Inr page_failed)
                 (fst (snd (getTotalComics sample_env 5 (Inr page_failed) sample_api [] 2020)))
                 (snd (snd (getTotalComics sample_env 5 (Inr page_failed) sample_api [] 2020)))
                 2020)) =
       [] @ [signedRequest sample_env 5 COMICS_ENDPOINT (getComicsSearchParams 2020 0 1),
             signedRequest sample_env 6 COMICS_ENDPOINT (getComicsSearchParams 2020 0 1)]"
    using getTotalComics_failure_not_cached [where this = sample_api and yr = 2020
        and parsed = page_failed and E = sample_env and now = 5 and sent = "[]" and now' = 6
        and answer' = "Inr page_failed", THEN conjunct1] miss failed
    by blast
  have success:
    "getTotalComics sample_env 5 (Inr page_ok) sample_api [] 2020 =
       (Inr (total_count (data page_ok)),
        sample_api\<lparr>redis := set_key (redis sample_api) (total_key 2020) (total_count (data page_ok))\<rparr>,
        [] @ [signedRequest sample_env 5 COMICS_ENDPOINT (getComicsSearchParams 2020 0 1)]) \<and>
     get (redis (fst (snd (getTotalComics sample_env 5 (Inr page_ok) sample_api [] 2020))))
       (total_key 2020) = Some (total_count (data page_ok))"
    using getTotalComics_failure_not_cached [where this = sample_api and yr = 2020
        and parsed = page_ok and E = sample_env and now = 5 and sent = "[]",
        THEN conjunct2, THEN conjunct1] miss ok
    by blast
  note f1 = failure [THEN conjunct1] and f2 = failure [THEN conjunct2]
    and s1 = success [THEN conjunct1] and s2 = success [THEN conjunct2]
  have second: "snd (snd (getTotalComics sample_env 6 (Inr page_failed) sample_api
      [signedRequest sample_env 5 COMICS_ENDPOINT (getComicsSearchParams 2020 0 1)] 2020)) =
     [signedRequest sample_env 5 COMICS_ENDPOINT (getComicsSearchParams 2020 0 1),
      signedRequest sample_env 6 COMICS_ENDPOINT (getComicsSearchParams 2020 0 1)]"
    using f2 unfolding f1 by simp
  show ?thesis
    using miss failed ok f1 second s1 s2 by (simp add: key total)
qed

text \<open>
  C9. When the cached total of a year is 0, \<open>getTotalComics\<close> treats it as absent:
  it sends an upstream request and its result comes from the answer, whether or
  not the cache is bypassed. A cached total other than 0 is served from the cache
  when the cache is not bypassed.
\<close>

theorem getTotalComics_cached_zero:
  "(get (redis this) (total_key yr) = Some 0 \<longrightarrow>
      snd (snd (getTotalComics E now answer this sent yr)) =
        sent @ [signedRequest E now COMICS_ENDPOINT (getComicsSearchParams yr 0 1)] \<and>
      fst (getTotalComics E now answer this sent yr) =
        (case answer of
           Inl e \<Rightarrow> Inl e
         | Inr p \<Rightarrow> if code p = 200 then Inr (total_count (data p)) else Inr (- 1))) \<and>
   (get (redis this) (total_key yr) = Some v \<and> v \<noteq> 0 \<and> \<not> ignoreCache this \<longrightarrow>
      getTotalComics E now answer this sent yr = (Inr v, this, sent))"
  by (auto simp add: getTotalComics_def Let_def callMarvelApi_def split: option.splits sum.splits)

theorem getTotalComics_cached_zero_witness:
  "get (redis (sample_api\<lparr>redis := set_key sample_store (total_key 2020) 0\<rparr>)) (total_key 2020) =
     Some 0 \<and>
   snd (snd (getTotalComics sample_env 5 (Inr page_ok)
     (sample_api\<lparr>redis := set_key sample_store (total_key 2020) 0\<rparr>) [] 2020)) =
     [signedRequest sample_env 5 COMICS_ENDPOINT (getComicsSearchParams 2020 0 1)] \<and>
   fst (getTotalComics sample_env 5 (Inr page_ok)
     (sample_api\<lparr>redis := set_key sample_store (total_key 2020) 0\<rparr>) [] 2020) = Inr 2 \<and>
   getTotalComics sample_env 5 (Inr page_ok)
     (sample_api\<lparr>redis := set_key sample_store (total_key 2020) 7\<rparr>) [] 2020 =
     (Inr 7, sample_api\<lparr>redis := set_key sample_store (total_key 2020) 7\<rparr>, [])"
  using getTotalComics_cached_zero
      [where this = "sample_api\<lparr>redis := set_key sample_store (total_key 2020) 0\<rparr>"
        and yr = 2020 and E = sample_env and now = 5 and answer = "Inr page_ok"
        and sent = "[]" and v = 0]
    getTotalComics_cached_zero
      [where this = "sample_api\<lparr>redis := set_key sample_store (total_key 2020) 7\<rparr>"
        and yr = 2020 and E = sample_env and now = 5 and answer = "Inr page_ok"
        and sent = "[]" and v = 7]
  by (simp add: sample_api_def get_def set_key_def page_ok_def)

text \<open>
  C6 (as the code has it, with \<open>dedupe\<close> modelled from the specification). When
  both bounds are given and neither is 0, so that the guard
  \<^verbatim>\<open>startYear && endYear\<close> holds, \<open>getRandomComics\<close> takes the clock value as seed,
  asks the store's range sampler with that seed and deduplicates the sample by id:
  for any seed and any sampler, the ids of the result are pairwise distinct, every
  id of the sample is kept, the result is a subsequence of the sample, and each
  record kept is the first of its id in the sample.
\<close>

theorem getRandomComics_no_duplicate_ids:
  assumes "s \<noteq> 0" and "e \<noteq> 0"
  shows "getRandomComics now this (Some s) (Some e) =
           dedupe (getRandomComicsForYear (redis this) s e now) random_id \<and>
         distinct (map random_id (getRandomComics now this (Some s) (Some e))) \<and>
         random_id ` set (getRandomComics now this (Some s) (Some e)) =
           random_id ` set (getRandomComicsForYear (redis this) s e now) \<and>
         subseq (getRandomComics now this (Some s) (Some e))
           (getRandomComicsForYear (redis this) s e now) \<and>
         (\<forall>x \<in> set (getRandomComics now this (Some s) (Some e)).
            find (\<lambda>y. random_id y = random_id x) (getRandomComicsForYear (redis this) s e now) =
              Some x)"
proof -
  have eq: "getRandomComics now this (Some s) (Some e) =
              dedupe (getRandomComicsForYear (redis this) s e now) random_id"
    using assms by (simp add: getRandomComics_def)
  show ?thesis
    unfolding eq
    by (simp add: distinct_dedupe keys_dedupe subseq_dedupe find_dedupe)
qed

theorem getRandomComics_no_duplicate_ids_witness:
  "(2019::int) \<noteq> 0 \<and> (2020::int) \<noteq> 0 \<and>
   getRandomComicsForYear (redis sample_api) 2019 2020 7 = [random1, random2, random1] \<and>
   getRandomComics 7 sample_api (Some 2019) (Some 2020) = [random1, random2] \<and>
   distinct (map random_id (getRandomComics 7 sample_api (Some 2019) (Some 2020)))"
  using getRandomComics_no_duplicate_ids [where s = 2019 and e = 2020 and now = 7
      and this = sample_api]
  by (simp add: sample_api_def sample_store_def random1_def random2_def)

text \<open>
  C6, the sentence of the specification: it promises no duplicate ids whenever
  both bounds are given. A bound that is given as 0 fails the guard: the store's
  unconditional sample is returned as it is, and on the sample store an id occurs
  twice.
\<close>

theorem getRandomComics_zero_bound_keeps_duplicates:
  "getRandomComics 7 sample_api (Some 2019) (Some 0) = [random1, random1] \<and>
   \<not> distinct (map random_id (getRandomComics 7 sample_api (Some 2019) (Some 0)))"
  by (simp add: getRandomComics_def sample_api_def sample_store_def)

text \<open>
  C10. \<open>getRandomComics\<close> takes the seeded, deduplicated range-sampling path only
  when both bounds are truthy. If either bound is absent or is the number 0, the
  result is the store's unconditional sample as the store returns it, with no
  deduplication applied.
\<close>

theorem getRandomComics_guard:
  "(startYear = None \<or> startYear = Some 0 \<or> endYear = None \<or> endYear = Some 0 \<longrightarrow>
      getRandomComics now this startYear endYear = getRandomComics_any (redis this)) \<and>
   (\<forall>s e. startYear = Some s \<and> endYear = Some e \<and> s \<noteq> 0 \<and> e \<noteq> 0 \<longrightarrow>
      getRandomComics now this startYear endYear =
        dedupe (getRandomComicsForYear (redis this) s e now) random_id)"
  by (auto simp: getRandomComics_def split: option.splits)

theorem getRandomComics_guard_witness:
  "getRandomComics 7 sample_api (Some 0) (Some 2020) = [random1, random1] \<and>
   getRandomComics 7 sample_api None (Some 2020) = [random1, random1] \<and>
   getRandomComics 7 sample_api (Some 2019) None = [random1, random1] \<and>
   \<not> distinct (map random_id (getRandomComics 7 sample_api (Some 0) (Some 2020))) \<and>
   getRandomComics 7 sample_api (Some 2019) (Some 2020) = [random1, random2]"
  using getRandomComics_guard [where startYear = "Some 0" and endYear = "Some 2020"
      and now = 7 and this = sample_api]
    getRandomComics_guard [where startYear = None and endYear = "Some 2020"
      and now = 7 and this = sample_api]
    getRandomComics_guard [where startYear = "Some 2019" and endYear = None
      and now = 7 and this = sample_api]
    getRandomComics_guard [where startYear = "Some 2019" and endYear = "Some 2020"
      and now = 7 and this = sample_api]
  by (simp add: sample_api_def sample_store_def random1_def random2_def)

section \<open>The search, filter and sort pipeline\<close>

text \<open>
  C2. \<open>filterComics\<close> keeps a record if and only if the month test holds and, for
  each of series, creators and events, either the size of the selection equals
  the size of the universe of the category (the shortcut) or the record is in the
  selection. The shortcut is decided by the two sizes and not by emptiness: a
  selection of the size of the universe filters nothing whatever it holds, a
  selection of another size filters by membership, and an empty selection over a
  universe that is not empty keeps nothing. When the three sizes agree (in
  particular when the three selections are the universes) and the month index is
  negative, the filter returns its input.
\<close>

theorem filterComics_selection:
  "filterComics L U comics selectedSeries selectedCreators selectedEvents monthIndex =
     filter
       (\<lambda>c. (monthIndex < 0 \<or> month (getOnSaleDate L c) = monthIndex) \<and>
            (fcard selectedSeries \<noteq> fcard (all_series U) \<longrightarrow>
               name (series c) |\<in>| selectedSeries) \<and>
            (fcard selectedCreators \<noteq> fcard (all_creators U) \<longrightarrow>
               isCreatorSelected L c selectedCreators) \<and>
            (fcard selectedEvents \<noteq> fcard (all_events U) \<longrightarrow>
               isEventSelected L c selectedEvents))
       comics \<and>
   (fcard selectedSeries = fcard (all_series U) \<and>
    fcard selectedCreators = fcard (all_creators U) \<and>
    fcard selectedEvents = fcard (all_events U) \<and> monthIndex < 0 \<longrightarrow>
      filterComics L U comics selectedSeries selectedCreators selectedEvents monthIndex = comics) \<and>
   (selectedSeries = all_series U \<and> selectedCreators = all_creators U \<and>
    selectedEvents = all_events U \<and> monthIndex < 0 \<longrightarrow>
      filterComics L U comics selectedSeries selectedCreators selectedEvents monthIndex = comics) \<and>
   (fcard selectedSeries \<noteq> fcard (all_series U) \<longrightarrow>
      (\<forall>c \<in> set (filterComics L U comics selectedSeries selectedCreators selectedEvents monthIndex).
         name (series c) |\<in>| selectedSeries)) \<and>
   (fcard selectedCreators \<noteq> fcard (all_creators U) \<longrightarrow>
      (\<forall>c \<in> set (filterComics L U comics selectedSeries selectedCreators selectedEvents monthIndex).
         isCreatorSelected L c selectedCreators)) \<and>
   (fcard selectedEvents \<noteq> fcard (all_events U) \<longrightarrow>
      (\<forall>c \<in> set (filterComics L U comics selectedSeries selectedCreators selectedEvents monthIndex).
         isEventSelected L c selectedEvents)) \<and>
   (selectedSeries = {||} \<and> all_series U \<noteq> {||} \<longrightarrow>
      filterComics L U comics selectedSeries selectedCreators selectedEvents monthIndex = []) \<and>
   (selectedCreators = {||} \<and> all_creators U \<noteq> {||} \<and>
    (\<forall>c. \<not> isCreatorSelected L c {||}) \<longrightarrow>
      filterComics L U comics selectedSeries selectedCreators selectedEvents monthIndex = []) \<and>
   (selectedEvents = {||} \<and> all_events U \<noteq> {||} \<and>
    (\<forall>c. \<not> isEventSelected L c {||}) \<longrightarrow>
      filterComics L U comics selectedSeries selectedCreators selectedEvents monthIndex = [])"
proof -
  have eq: "filterComics L U comics selectedSeries selectedCreators selectedEvents monthIndex =
     filter
       (\<lambda>c. (monthIndex < 0 \<or> month (getOnSaleDate L c) = monthIndex) \<and>
            (fcard selectedSeries \<noteq> fcard (all_series U) \<longrightarrow>
               name (series c) |\<in>| selectedSeries) \<and>
            (fcard selectedCreators \<noteq> fcard (all_creators U) \<longrightarrow>
               isCreatorSelected L c selectedCreators) \<and>
            (fcard selectedEvents \<noteq> fcard (all_events U) \<longrightarrow>
               isEventSelected L c selectedEvents))
       comics"
    unfolding filterComics_def Let_def by (rule filter_cong) auto
  have empty: "fcard A \<noteq> fcard B" if "A = {||}" "B \<noteq> {||}" for A B :: "string fset"
  proof -
    from that have "fcard B \<noteq> 0" by simp
    with that show ?thesis by (simp add: fcard_fempty)
  qed
  show ?thesis
  proof (intro conjI impI)
    show "filterComics L U comics selectedSeries selectedCreators selectedEvents monthIndex =
     filter
       (\<lambda>c. (monthIndex < 0 \<or> month (getOnSaleDate L c) = monthIndex) \<and>
            (fcard selectedSeries \<noteq> fcard (all_series U) \<longrightarrow>
               name (series c) |\<in>| selectedSeries) \<and>
            (fcard selectedCreators \<noteq> fcard (all_creators U) \<longrightarrow>
               isCreatorSelected L c selectedCreators) \<and>
            (fcard selectedEvents \<noteq> fcard (all_events U) \<longrightarrow>
               isEventSelected L c selectedEvents))
       comics"
      by (rule eq)
  next
    assume "fcard selectedSeries = fcard (all_series U) \<and>
      fcard selectedCreators = fcard (all_creators U) \<and>
      fcard selectedEvents = fcard (all_events U) \<and> monthIndex < 0"
    then show "filterComics L U comics selectedSeries selectedCreators selectedEvents monthIndex =
        comics"
      by (simp add: eq)
  next
    assume "selectedSeries = all_series U \<and> selectedCreators = all_creators U \<and>
      selectedEvents = all_events U \<and> monthIndex < 0"
    then show "filterComics L U comics selectedSeries selectedCreators selectedEvents monthIndex =
        comics"
      by (simp add: filterComics_def)
  next
    assume "fcard selectedSeries \<noteq> fcard (all_series U)"
    then show "\<forall>c \<in> set (filterComics L U comics selectedSeries selectedCreators selectedEvents
        monthIndex). name (series c) |\<in>| selectedSeries"
      by (simp add: eq)
  next
    assume "fcard selectedCreators \<noteq> fcard (all_creators U)"
    then show "\<forall>c \<in> set (filterComics L U comics selectedSeries selectedCreators selectedEvents
        monthIndex). isCreatorSelected L c selectedCreators"
      by (simp add: eq)
  next
    assume "fcard selectedEvents \<noteq> fcard (all_events U)"
    then show "\<forall>c \<in> set (filterComics L U comics selectedSeries selectedCreators selectedEvents
        monthIndex). isEventSelected L c selectedEvents"
      by (simp add: eq)
  next
    assume a: "selectedSeries = {||} \<and> all_series U \<noteq> {||}"
    then have ne: "fcard selectedSeries \<noteq> fcard (all_series U)"
      using empty by blast
    have "\<not> name (series c) |\<in>| selectedSeries" for c
      using a by simp
    then show "filterComics L U comics selectedSeries selectedCreators selectedEvents monthIndex =
        []"
      unfolding eq using ne by (auto simp: filter_empty_conv)
  next
    assume a: "selectedCreators = {||} \<and> all_creators U \<noteq> {||} \<and>
      (\<forall>c. \<not> isCreatorSelected L c {||})"
    then have ne: "fcard selectedCreators \<noteq> fcard (all_creators U)"
      using empty by blast
    have "\<not> isCreatorSelected L c selectedCreators" for c
      using a by simp
    then show "filterComics L U comics selectedSeries selectedCreators selectedEvents monthIndex =
        []"
      unfolding eq using ne by (auto simp: filter_empty_conv)
  next
    assume a: "selectedEvents = {||} \<and> all_events U \<noteq> {||} \<and>
      (\<forall>c. \<not> isEventSelected L c {||})"
    then have ne: "fcard selectedEvents \<noteq> fcard (all_events U)"
      using empty by blast
    have "\<not> isEventSelected L c selectedEvents" for c
      using a by simp
    then show "filterComics L U comics selectedSeries selectedCreators selectedEvents monthIndex =
        []"
      unfolding eq using ne by (auto simp: filter_empty_conv)
  qed
qed

lemma sample_creator_selection:
  "\<forall>c. \<not> isCreatorSelected sample_helpers c {||}"
  by (simp add: sample_helpers_def)

theorem filterComics_selection_witness:
  "filterComics sample_helpers wide_universe [comic1, comic2, comic3]
     {|''ASM'', ''ASM Annual''|} {|''Lee'', ''Kirby''|} {||} (- 1) = [comic1, comic2, comic3] \<and>
   filterComics sample_helpers wide_universe [comic1, comic2, comic3]
     {|''Other'', ''None''|} {|''Lee'', ''Kirby''|} {||} (- 1) = [comic1, comic2, comic3] \<and>
   filterComics sample_helpers wide_universe [comic1, comic2, comic3]
     {|''ASM'', ''ASM Annual''|} {|''Lee''|} {||} (- 1) = [comic1, comic2] \<and>
   filterComics sample_helpers wide_universe [comic1, comic2, comic3]
     {|''ASM Annual''|} {|''Lee'', ''Kirby''|} {||} (- 1) = [comic3] \<and>
   filterComics sample_helpers wide_universe [comic1, comic2, comic3]
     {|''ASM'', ''ASM Annual''|} {|''Lee'', ''Kirby''|} {||} 2 = [comic1] \<and>
   filterComics sample_helpers wide_universe [comic1, comic2, comic3]
     {|''ASM'', ''ASM Annual''|} {||} {||} (- 1) = [] \<and>
   filterComics sample_helpers wide_universe [comic1, comic2, comic3]
     {||} {|''Lee'', ''Kirby''|} {||} (- 1) = []"
proof -
  note t = filterComics_selection [where L = sample_helpers and U = wide_universe
      and comics = "[comic1, comic2, comic3]" and selectedEvents = "{||}"]
  have full: "fcard {|''ASM'', ''ASM Annual''|} = fcard (all_series wide_universe) \<and>
      fcard {|''Lee'', ''Kirby''|} = fcard (all_creators wide_universe) \<and>
      fcard ({||} :: string fset) = fcard (all_events wide_universe) \<and> (- 1 :: int) < 0"
    by (simp add: wide_universe_def fcard_finsert_if fcard_fempty)
  have other: "fcard {|''Other'', ''None''|} = fcard (all_series wide_universe) \<and>
      fcard {|''Lee'', ''Kirby''|} = fcard (all_creators wide_universe) \<and>
      fcard ({||} :: string fset) = fcard (all_events wide_universe) \<and> (- 1 :: int) < 0"
    by (simp add: wide_universe_def fcard_finsert_if fcard_fempty)
  have 1: "filterComics sample_helpers wide_universe [comic1, comic2, comic3]
     {|''ASM'', ''ASM Annual''|} {|''Lee'', ''Kirby''|} {||} (- 1) = [comic1, comic2, comic3]"
    using t [where selectedSeries = "{|''ASM'', ''ASM Annual''|}"
        and selectedCreators = "{|''Lee'', ''Kirby''|}" and monthIndex = "- 1",
        THEN conjunct2, THEN conjunct1] full
    by blast
  have 2: "filterComics sample_helpers wide_universe [comic1, comic2, comic3]
     {|''Other'', ''None''|} {|''Lee'', ''Kirby''|} {||} (- 1) = [comic1, comic2, comic3]"
    using t [where selectedSeries = "{|''Other'', ''None''|}"
        and selectedCreators = "{|''Lee'', ''Kirby''|}" and monthIndex = "- 1",
        THEN conjunct2, THEN conjunct1] other
    by blast
  have 3: "filterComics sample_helpers wide_universe [comic1, comic2, comic3]
     {|''ASM'', ''ASM Annual''|} {|''Lee''|} {||} (- 1) = [comic1, comic2]"
    using t [where selectedSeries = "{|''ASM'', ''ASM Annual''|}"
        and selectedCreators = "{|''Lee''|}" and monthIndex = "- 1", THEN conjunct1]
    by (simp add: wide_universe_def sample_helpers_def comic1_def comic2_def comic3_def
        fcard_finsert_if fcard_fempty)
  have 4: "filterComics sample_helpers wide_universe [comic1, comic2, comic3]
     {|''ASM Annual''|} {|''Lee'', ''Kirby''|} {||} (- 1) = [comic3]"
    using t [where selectedSeries = "{|''ASM Annual''|}"
        and selectedCreators = "{|''Lee'', ''Kirby''|}" and monthIndex = "- 1", THEN conjunct1]
    by (simp add: wide_universe_def sample_helpers_def comic1_def comic2_def comic3_def
        fcard_finsert_if fcard_fempty)
  have 5: "filterComics sample_helpers wide_universe [comic1, comic2, comic3]
     {|''ASM'', ''ASM Annual''|} {|''Lee'', ''Kirby''|} {||} 2 = [comic1]"
    using t [where selectedSeries = "{|''ASM'', ''ASM Annual''|}"
        and selectedCreators = "{|''Lee'', ''Kirby''|}" and monthIndex = 2, THEN conjunct1]
    by (simp add: wide_universe_def sample_helpers_def comic1_def comic2_def comic3_def
        fcard_finsert_if fcard_fempty)
  have 6: "filterComics sample_helpers wide_universe [comic1, comic2, comic3]
     {|''ASM'', ''ASM Annual''|} {||} {||} (- 1) = []"
    using t [where selectedSeries = "{|''ASM'', ''ASM Annual''|}"
        and selectedCreators = "{||}" and monthIndex = "- 1"] sample_creator_selection
    by (simp add: wide_universe_def fcard_finsert_if fcard_fempty)
  have 7: "filterComics sample_helpers wide_universe [comic1, comic2, comic3]
     {||} {|''Lee'', ''Kirby''|} {||} (- 1) = []"
    using t [where selectedSeries = "{||}"
        and selectedCreators = "{|''Lee'', ''Kirby''|}" and monthIndex = "- 1"]
    by (simp add: wide_universe_def fcard_finsert_if fcard_fempty)
  show ?thesis using 1 2 3 4 5 6 7 by (intro conjI)
qed






end
